theory Spec2Isabelle
  imports Complex_Main
begin

section \<open>JavaScript values reaching the handlers\<close>

text \<open>
  The handlers of \<^verbatim>\<open>src/index.js\<close> read \<^verbatim>\<open>req.query\<close> and \<^verbatim>\<open>req.body\<close>, both filled by
  the extended query-string parser: a field is absent (\<^verbatim>\<open>undefined\<close>), a string, an array
  or a nested object. Strings are lists of 8-bit \<open>char\<close>; code points above 255 are outside
  the model.
\<close>

datatype param = Undefined | Str string | Arr "param list" | Obj "(string \<times> param) list"

text \<open>ToBoolean: \<^verbatim>\<open>undefined\<close> and the empty string are falsy, every object is truthy.\<close>

fun truthy :: "param \<Rightarrow> bool" where
  "truthy Undefined = False"
| "truthy (Str s) = (s \<noteq> [])"
| "truthy (Arr xs) = True"
| "truthy (Obj kvs) = True"

text \<open>\<^verbatim>\<open>a || b\<close> yields \<^verbatim>\<open>a\<close> when it is truthy and \<^verbatim>\<open>b\<close> otherwise.\<close>

definition js_or :: "param \<Rightarrow> param \<Rightarrow> param" where
  "js_or a b = (if truthy a then a else b)"

text \<open>
  ToString. An array joins its elements with commas (\<^verbatim>\<open>Array.prototype.join\<close>, where an
  \<^verbatim>\<open>undefined\<close> element contributes the empty string); a plain object prints as
  \<^verbatim>\<open>[object Object]\<close>.
\<close>

fun join_comma :: "string list \<Rightarrow> string" where
  "join_comma [] = []"
| "join_comma [s] = s"
| "join_comma (s # t # ss) = s @ '','' @ join_comma (t # ss)"

fun to_string :: "param \<Rightarrow> string" where
  "to_string Undefined = ''undefined''"
| "to_string (Str s) = s"
| "to_string (Arr xs) = join_comma (map (\<lambda>x. if x = Undefined then [] else to_string x) xs)"
| "to_string (Obj kvs) = ''[object Object]''"

subsection \<open>Numbers and the coercion of unary plus\<close>

text \<open>
  A Number is NaN, an infinity, or finite. A finite number is kept as the exact mathematical
  value of its literal; the rounding of that value to a double is not modelled, and negative
  zero is identified with zero.
\<close>

datatype jsnum = NaN | PosInf | NegInf | Fin rat

definition is_ws :: "char \<Rightarrow> bool" where
  "is_ws c = (of_char c \<in> set [9, 10, 11, 12, 13, 32, 160 :: nat])"

definition trim :: "string \<Rightarrow> string" where
  "trim s = rev (dropWhile is_ws (rev (dropWhile is_ws s)))"

definition is_digit :: "char \<Rightarrow> bool" where
  "is_digit c = (48 \<le> (of_char c :: nat) \<and> (of_char c :: nat) \<le> 57)"

definition hex_val :: "char \<Rightarrow> nat option" where
  "hex_val c =
     (let n = (of_char c :: nat) in
      if 48 \<le> n \<and> n \<le> 57 then Some (n - 48)
      else if 97 \<le> n \<and> n \<le> 102 then Some (n - 87)
      else if 65 \<le> n \<and> n \<le> 70 then Some (n - 55)
      else None)"

text \<open>The value of a non-empty digit string in a radix; \<open>None\<close> when a character is no digit of it.\<close>

fun radix_val :: "nat \<Rightarrow> nat \<Rightarrow> string \<Rightarrow> nat option" where
  "radix_val r acc [] = Some acc"
| "radix_val r acc (c # cs) =
     (case hex_val c of
        None \<Rightarrow> None
      | Some d \<Rightarrow> if d < r then radix_val r (r * acc + d) cs else None)"

definition digits_val :: "nat \<Rightarrow> string \<Rightarrow> nat option" where
  "digits_val r s = (if s = [] then None else radix_val r 0 s)"

text \<open>ExponentPart: \<^verbatim>\<open>e\<close> or \<^verbatim>\<open>E\<close>, an optional sign, and at least one decimal digit.\<close>

definition exponent_part :: "string \<Rightarrow> int option" where
  "exponent_part s =
     (case s of
        [] \<Rightarrow> Some 0
      | c # r \<Rightarrow>
          if c = CHR ''e'' \<or> c = CHR ''E'' then
            (case r of
               [] \<Rightarrow> None
             | d # r' \<Rightarrow>
                 if d = CHR ''-'' then map_option (\<lambda>n. - int n) (digits_val 10 r')
                 else if d = CHR ''+'' then map_option int (digits_val 10 r')
                 else map_option int (digits_val 10 r))
          else None)"

definition scale10 :: "nat \<Rightarrow> int \<Rightarrow> rat" where
  "scale10 m k = (if 0 \<le> k then of_nat m * 10 ^ nat k else of_nat m / 10 ^ nat (- k))"

text \<open>
  StrUnsignedDecimalLiteral: \<^verbatim>\<open>Infinity\<close>, or digits with an optional fraction and an optional
  exponent, where the digits before or after the point may be missing but not both.
\<close>

definition unsigned_decimal :: "string \<Rightarrow> jsnum" where
  "unsigned_decimal s =
     (if s = ''Infinity'' then PosInf
      else
        let ip = takeWhile is_digit s;
            r1 = dropWhile is_digit s;
            dot = (r1 \<noteq> [] \<and> hd r1 = CHR ''.'');
            fp = (if dot then takeWhile is_digit (tl r1) else []);
            r2 = (if dot then dropWhile is_digit (tl r1) else r1)
        in if ip = [] \<and> fp = [] then NaN
           else
             (case (radix_val 10 0 (ip @ fp), exponent_part r2) of
                (Some m, Some e) \<Rightarrow> Fin (scale10 m (e - int (length fp)))
              | _ \<Rightarrow> NaN))"

definition negate :: "jsnum \<Rightarrow> jsnum" where
  "negate n = (case n of NaN \<Rightarrow> NaN | PosInf \<Rightarrow> NegInf | NegInf \<Rightarrow> PosInf | Fin q \<Rightarrow> Fin (- q))"

definition of_radix :: "nat \<Rightarrow> string \<Rightarrow> jsnum" where
  "of_radix r s = (case digits_val r s of None \<Rightarrow> NaN | Some n \<Rightarrow> Fin (of_nat n))"

text \<open>
  StringToNumber: surrounding white space is dropped, the empty string is 0, a literal with
  prefix \<^verbatim>\<open>0x\<close>, \<^verbatim>\<open>0o\<close> or \<^verbatim>\<open>0b\<close> takes no sign, a decimal literal takes an optional sign,
  and everything else is NaN.
\<close>

definition string_to_number :: "string \<Rightarrow> jsnum" where
  "string_to_number s =
     (let t = trim s in
      case t of
        [] \<Rightarrow> Fin 0
      | c # r \<Rightarrow>
          if c = CHR ''0'' \<and> r \<noteq> [] \<and> (hd r = CHR ''x'' \<or> hd r = CHR ''X'') then of_radix 16 (tl r)
          else if c = CHR ''0'' \<and> r \<noteq> [] \<and> (hd r = CHR ''o'' \<or> hd r = CHR ''O'') then of_radix 8 (tl r)
          else if c = CHR ''0'' \<and> r \<noteq> [] \<and> (hd r = CHR ''b'' \<or> hd r = CHR ''B'') then of_radix 2 (tl r)
          else if c = CHR ''-'' then negate (unsigned_decimal r)
          else if c = CHR ''+'' then unsigned_decimal r
          else unsigned_decimal t)"

text \<open>
  ToNumber: \<^verbatim>\<open>undefined\<close> is NaN, a string is parsed, an array or object is first turned into
  its string.
\<close>

fun to_number :: "param \<Rightarrow> jsnum" where
  "to_number Undefined = NaN"
| "to_number v = string_to_number (to_string v)"

text \<open>
  The operands of \<^verbatim>\<open>??\<close> in \<^verbatim>\<open>+limit ?? 500\<close>: the left one is the Number that unary plus
  produced. \<^verbatim>\<open>a ?? b\<close> is \<^verbatim>\<open>b\<close> only when \<^verbatim>\<open>a\<close> is \<^verbatim>\<open>undefined\<close> or \<^verbatim>\<open>null\<close>.
\<close>

datatype operand = OUndefined | ONull | ONum jsnum

definition nullish_or :: "operand \<Rightarrow> operand \<Rightarrow> operand" where
  "nullish_or a b = (if a = OUndefined \<or> a = ONull then b else a)"

definition unary_plus :: "param \<Rightarrow> operand" where
  "unary_plus v = ONum (to_number v)"

text \<open>Line 165: the argument of \<^verbatim>\<open>.limit(+limit ?? 500)\<close>.\<close>

definition logs_limit :: "param \<Rightarrow> operand" where
  "logs_limit limit = nullish_or (unary_plus limit) (ONum (Fin 500))"

section \<open>Dates\<close>

text \<open>
  A Date object holds a time value: NaN (an invalid date) or a number of milliseconds since
  the epoch, in UTC.
\<close>

datatype jsdate = Invalid | Time int

text \<open>
  What the host supplies: the clock read by \<^verbatim>\<open>new Date()\<close>, the offset of local time from
  UTC at a given instant, and \<^verbatim>\<open>Date.parse\<close>, whose result on text outside the ISO format
  is left to the implementation.
\<close>

record env =
  now :: int
  LocalTZA :: "int \<Rightarrow> int"
  Date_parse :: "string \<Rightarrow> jsdate"

text \<open>\<^verbatim>\<open>new Date(v)\<close> for a request value: a string is parsed, an array or object is parsed
  through its string, \<^verbatim>\<open>undefined\<close> converts to NaN.\<close>

fun new_Date :: "env \<Rightarrow> param \<Rightarrow> jsdate" where
  "new_Date E Undefined = Invalid"
| "new_Date E v = Date_parse E (to_string v)"

text \<open>\<^verbatim>\<open>new Date()\<close>.\<close>

definition new_Date_now :: "env \<Rightarrow> jsdate" where
  "new_Date_now E = Time (now E)"

subsection \<open>Calendar fields of a time value\<close>

definition msPerDay :: int where
  "msPerDay = 86400000"

definition Day :: "int \<Rightarrow> int" where
  "Day t = t div msPerDay"

definition DaysInYear :: "int \<Rightarrow> int" where
  "DaysInYear y =
     (if y mod 4 \<noteq> 0 then 365
      else if y mod 100 \<noteq> 0 then 366
      else if y mod 400 \<noteq> 0 then 365
      else 366)"

definition DayFromYear :: "int \<Rightarrow> int" where
  "DayFromYear y =
     365 * (y - 1970) + (y - 1969) div 4 - (y - 1901) div 100 + (y - 1601) div 400"

definition TimeFromYear :: "int \<Rightarrow> int" where
  "TimeFromYear y = msPerDay * DayFromYear y"

text \<open>
  YearFromTime is the largest year whose first instant is not after \<open>t\<close>. It is computed from
  the mean length of a year, 365.2425 days, and one step of adjustment.
\<close>

definition YearFromTime :: "int \<Rightarrow> int" where
  "YearFromTime t =
     (let d = Day t; y = 1970 + (d * 10000) div 3652425 in
      if d < DayFromYear y then y - 1
      else if DayFromYear (y + 1) \<le> d then y + 1
      else y)"

definition DayWithinYear :: "int \<Rightarrow> int" where
  "DayWithinYear t = Day t - DayFromYear (YearFromTime t)"

definition InLeapYear :: "int \<Rightarrow> int" where
  "InLeapYear t = (if DaysInYear (YearFromTime t) = 366 then 1 else 0)"

definition MonthFromTime :: "int \<Rightarrow> int" where
  "MonthFromTime t =
     (let d = DayWithinYear t; l = InLeapYear t in
      if d < 31 then 0
      else if d < 59 + l then 1
      else if d < 90 + l then 2
      else if d < 120 + l then 3
      else if d < 151 + l then 4
      else if d < 181 + l then 5
      else if d < 212 + l then 6
      else if d < 243 + l then 7
      else if d < 273 + l then 8
      else if d < 304 + l then 9
      else if d < 334 + l then 10
      else 11)"

definition DateFromTime :: "int \<Rightarrow> int" where
  "DateFromTime t =
     (let d = DayWithinYear t; l = InLeapYear t; m = MonthFromTime t in
      if m = 0 then d + 1
      else if m = 1 then d - 30
      else if m = 2 then d - 58 - l
      else if m = 3 then d - 89 - l
      else if m = 4 then d - 119 - l
      else if m = 5 then d - 150 - l
      else if m = 6 then d - 180 - l
      else if m = 7 then d - 211 - l
      else if m = 8 then d - 242 - l
      else if m = 9 then d - 272 - l
      else if m = 10 then d - 303 - l
      else d - 333 - l)"

definition WeekDay :: "int \<Rightarrow> int" where
  "WeekDay t = (Day t + 4) mod 7"

subsection \<open>\<^verbatim>\<open>toDateString\<close>\<close>

fun decimal :: "nat \<Rightarrow> string" where
  "decimal n =
     (if n < 10 then [char_of (48 + n)]
      else decimal (n div 10) @ [char_of (48 + n mod 10)])"

definition zero_padded :: "nat \<Rightarrow> nat \<Rightarrow> string" where
  "zero_padded n w = (let s = decimal n in replicate (w - length s) (CHR ''0'') @ s)"

definition weekday_name :: "int \<Rightarrow> string" where
  "weekday_name w = [''Sun'', ''Mon'', ''Tue'', ''Wed'', ''Thu'', ''Fri'', ''Sat''] ! nat w"

definition month_name :: "int \<Rightarrow> string" where
  "month_name m =
     [''Jan'', ''Feb'', ''Mar'', ''Apr'', ''May'', ''Jun'',
      ''Jul'', ''Aug'', ''Sep'', ''Oct'', ''Nov'', ''Dec''] ! nat m"

text \<open>DateString: weekday, month, two-digit day, and the year on at least four digits.\<close>

definition DateString :: "int \<Rightarrow> string" where
  "DateString t =
     (let yv = YearFromTime t in
      weekday_name (WeekDay t) @ '' '' @ month_name (MonthFromTime t) @ '' '' @
      zero_padded (nat (DateFromTime t)) 2 @ '' '' @
      (if 0 \<le> yv then [] else ''-'') @ zero_padded (nat \<bar>yv\<bar>) 4)"

definition LocalTime :: "env \<Rightarrow> int \<Rightarrow> int" where
  "LocalTime E t = t + LocalTZA E t"

definition toDateString :: "env \<Rightarrow> jsdate \<Rightarrow> string" where
  "toDateString E d =
     (case d of Invalid \<Rightarrow> ''Invalid Date'' | Time tv \<Rightarrow> DateString (LocalTime E tv))"

section \<open>Documents, the store and the responses\<close>

text \<open>The two Mongoose models. A field that a document lacks reads as \<^verbatim>\<open>undefined\<close>: \<open>None\<close>.\<close>

record user =
  uid :: string
  username :: "string option"

record exercise =
  userId :: string
  description :: "string option"
  duration :: "jsnum option"
  date :: "jsdate option"

text \<open>The object handed to \<^verbatim>\<open>new Exercise(...)\<close> at lines 99 to 104, before the schema casts it.\<close>

record exercise_fields =
  new_userId :: string
  new_description :: param
  new_duration :: param
  new_date :: jsdate

text \<open>The query filter of lines 142 to 162: \<^verbatim>\<open>$gte\<close> and \<^verbatim>\<open>$lte\<close> are the store's inclusive
  comparison operators.\<close>

record date_range =
  gte :: "jsdate option"
  lte :: "jsdate option"

record filter =
  filter_userId :: string
  filter_date :: "date_range option"

datatype error = StoreError | TypeError

text \<open>
  The store is the external collaborator. Each awaited call either resolves to a value or
  rejects, which throws at the \<^verbatim>\<open>await\<close>; a write also returns the store after it.
  \<open>user_findById\<close> resolves to \<open>None\<close> for \<^verbatim>\<open>null\<close>. Schema casting and validation happen
  inside \<open>user_save\<close> and \<open>exercise_save\<close>.
\<close>

record 's store =
  user_save :: "param \<Rightarrow> 's \<Rightarrow> (error + user) \<times> 's"
  user_find :: "'s \<Rightarrow> error + user list"
  user_findById :: "string \<Rightarrow> 's \<Rightarrow> error + user option"
  exercise_save :: "exercise_fields \<Rightarrow> 's \<Rightarrow> (error + exercise) \<times> 's"
  exercise_find :: "filter \<Rightarrow> operand \<Rightarrow> 's \<Rightarrow> error + exercise list"

record exercise_reply =
  reply_id :: string
  reply_username :: "string option"
  reply_description :: "string option"
  reply_duration :: "jsnum option"
  reply_date :: string

record log_entry =
  entry_description :: "string option"
  entry_duration :: "jsnum option"
  entry_date :: string

record logs_reply =
  logs_username :: "string option"
  logs_count :: nat
  logs_id :: string
  logs_log :: "log_entry list"

datatype response =
    Json_user user
  | Json_users "user list"
  | Json_exercise exercise_reply
  | Json_logs logs_reply
  | Send string

text \<open>
  What a request ends in: a response was sent, the handler returned without sending one, or
  an exception left the handler.
\<close>

datatype outcome = Responded response | NoResponse | Unhandled error

section \<open>The request handlers\<close>

subsection \<open>POST /api/users\<close>

definition post_users :: "'s store \<Rightarrow> param \<Rightarrow> 's \<Rightarrow> outcome \<times> 's" where
  "post_users db name s =
     (case user_save db name s of
        (Inr u, s') \<Rightarrow> (Responded (Json_user u), s')
      | (Inl err, s') \<Rightarrow> (NoResponse, s'))"

subsection \<open>GET /api/users\<close>

text \<open>\<^verbatim>\<open>!users\<close> on the array that \<^verbatim>\<open>find\<close> resolves to: an array is an object, hence truthy.\<close>

definition array_truthy :: "'a list \<Rightarrow> bool" where
  "array_truthy xs = True"

definition get_users :: "'s store \<Rightarrow> 's \<Rightarrow> outcome" where
  "get_users db s =
     (case user_find db s of
        Inl err \<Rightarrow> Unhandled err
      | Inr users \<Rightarrow>
          if \<not> array_truthy users then Responded (Send ''no users'')
          else Responded (Json_users users))"

subsection \<open>POST /api/users/:_id/exercises\<close>

record exercise_body =
  body_description :: param
  body_duration :: param
  body_date :: param

definition exerciseObj :: "env \<Rightarrow> user \<Rightarrow> exercise_body \<Rightarrow> exercise_fields" where
  "exerciseObj E u body =
     \<lparr>new_userId = uid u,
      new_description = body_description body,
      new_duration = body_duration body,
      new_date = (if truthy (body_date body) then new_Date E (body_date body) else new_Date_now E)\<rparr>"

text \<open>\<^verbatim>\<open>new Date(exercise.date)\<close> at line 115: a copy of the Date, or an invalid date from
  \<^verbatim>\<open>undefined\<close>.\<close>

definition copy_Date :: "jsdate option \<Rightarrow> jsdate" where
  "copy_Date d = (case d of None \<Rightarrow> Invalid | Some x \<Rightarrow> x)"

text \<open>Lines 107 to 119: what follows \<^verbatim>\<open>await exerciseObj.save()\<close>, inside the \<^verbatim>\<open>try\<close>.\<close>

definition exercise_reply_of :: "env \<Rightarrow> user \<Rightarrow> (error + exercise) \<times> 's \<Rightarrow> outcome \<times> 's" where
  "exercise_reply_of E u saved =
     (case saved of
        (Inl err, s') \<Rightarrow> (Responded (Send ''there was an error''), s')
      | (Inr ex, s') \<Rightarrow>
          (Responded (Json_exercise
             \<lparr>reply_id = uid u,
              reply_username = username u,
              reply_description = description ex,
              reply_duration = duration ex,
              reply_date = toDateString E (copy_Date (date ex))\<rparr>), s'))"

definition post_exercises :: "'s store \<Rightarrow> env \<Rightarrow> string \<Rightarrow> exercise_body \<Rightarrow> 's \<Rightarrow> outcome \<times> 's" where
  "post_exercises db E id' body s =
     (case user_findById db id' s of
        Inl err \<Rightarrow> (Responded (Send ''there was an error''), s)
      | Inr None \<Rightarrow> (Responded (Send ''could not find user''), s)
      | Inr (Some u) \<Rightarrow> exercise_reply_of E u (exercise_save db (exerciseObj E u body) s))"

subsection \<open>GET /api/users/:_id/logs\<close>

record logs_query =
  query_from :: param
  query_to :: param
  query_limit :: param

definition logs_filter :: "env \<Rightarrow> string \<Rightarrow> param \<Rightarrow> param \<Rightarrow> filter" where
  "logs_filter E id' from to =
     (let dateObj = \<lparr>gte = None, lte = None\<rparr>;
          dateObj = (if truthy from then dateObj\<lparr>gte := Some (new_Date E from)\<rparr> else dateObj);
          dateObj = (if truthy to then dateObj\<lparr>lte := Some (new_Date E to)\<rparr> else dateObj);
          filter' = \<lparr>filter_userId = id', filter_date = None\<rparr>
      in if truthy (js_or from to) then filter'\<lparr>filter_date := Some dateObj\<rparr> else filter')"

text \<open>The callback of \<^verbatim>\<open>exercises.map\<close>: \<^verbatim>\<open>i.date.toDateString()\<close> throws a TypeError when the
  document has no date.\<close>

definition log_item :: "env \<Rightarrow> exercise \<Rightarrow> error + log_entry" where
  "log_item E i =
     (case date i of
        None \<Rightarrow> Inl TypeError
      | Some d \<Rightarrow>
          Inr \<lparr>entry_description = description i,
               entry_duration = duration i,
               entry_date = toDateString E d\<rparr>)"

fun map_log :: "env \<Rightarrow> exercise list \<Rightarrow> error + log_entry list" where
  "map_log E [] = Inr []"
| "map_log E (i # is) =
     (case log_item E i of
        Inl err \<Rightarrow> Inl err
      | Inr e \<Rightarrow> (case map_log E is of Inl err \<Rightarrow> Inl err | Inr es \<Rightarrow> Inr (e # es)))"

text \<open>Lines 165 to 180: what follows \<^verbatim>\<open>await Exercise.find(filter).limit(...)\<close>.\<close>

definition logs_reply_of :: "env \<Rightarrow> user \<Rightarrow> error + exercise list \<Rightarrow> outcome" where
  "logs_reply_of E u found =
     (case found of
        Inl err \<Rightarrow> Unhandled err
      | Inr exercises \<Rightarrow>
          (case map_log E exercises of
             Inl err \<Rightarrow> Unhandled err
           | Inr log' \<Rightarrow>
               Responded (Json_logs
                 \<lparr>logs_username = username u,
                  logs_count = length exercises,
                  logs_id = uid u,
                  logs_log = log'\<rparr>)))"

definition get_logs :: "'s store \<Rightarrow> env \<Rightarrow> string \<Rightarrow> logs_query \<Rightarrow> 's \<Rightarrow> outcome" where
  "get_logs db E id' q s =
     (case user_findById db id' s of
        Inl err \<Rightarrow> Unhandled err
      | Inr None \<Rightarrow> Responded (Send ''could not find user'')
      | Inr (Some u) \<Rightarrow>
          logs_reply_of E u
            (exercise_find db (logs_filter E id' (query_from q) (query_to q))
               (logs_limit (query_limit q)) s))"

section \<open>A store and a host for concrete requests\<close>

text \<open>
  An in-memory store that keeps the two collections as lists, used to run the handlers on
  concrete requests. A query selects by \<open>userId\<close> only; a saved exercise keeps the user id
  and the date it was given.
\<close>

definition memory_store :: "(user list \<times> exercise list) store" where
  "memory_store =
     \<lparr>user_save = (\<lambda>name s. (Inl StoreError, s)),
      user_find = (\<lambda>s. Inr (fst s)),
      user_findById = (\<lambda>i s. Inr (find (\<lambda>u. uid u = i) (fst s))),
      exercise_save = (\<lambda>f s.
        (let e = \<lparr>userId = new_userId f, description = None, duration = None,
                  date = Some (new_date f)\<rparr>
         in (Inr e, (fst s, snd s @ [e])))),
      exercise_find = (\<lambda>F c s. Inr (filter (\<lambda>e. userId e = filter_userId F) (snd s)))\<rparr>"

text \<open>A store whose every call rejects, as when the connection is down.\<close>

definition rejecting_store :: "unit store" where
  "rejecting_store =
     \<lparr>user_save = (\<lambda>name s. (Inl StoreError, s)),
      user_find = (\<lambda>s. Inl StoreError),
      user_findById = (\<lambda>i s. Inl StoreError),
      exercise_save = (\<lambda>f s. (Inl StoreError, s)),
      exercise_find = (\<lambda>F c s. Inl StoreError)\<rparr>"

text \<open>A host one hour east of UTC whose parser knows one date, 2020-01-01.\<close>

definition host :: env where
  "host =
     \<lparr>now = 1762128000000,
      LocalTZA = (\<lambda>t. 3600000),
      Date_parse = (\<lambda>s. if s = ''2020-01-01'' then Time 1577836800000 else Invalid)\<rparr>"

definition alice :: user where
  "alice = \<lparr>uid = ''u1'', username = Some ''alice''\<rparr>"

definition run :: exercise where
  "run = \<lparr>userId = ''u1'', description = Some ''run'', duration = Some (Fin 30),
          date = Some (Time 1577836800000)\<rparr>"

section \<open>Properties\<close>

subsection \<open>The handlers on an existing user\<close>

lemma get_logs_found:
  "user_findById db id' s = Inr (Some u) \<Longrightarrow>
   get_logs db E id' q s =
     logs_reply_of E u
       (exercise_find db (logs_filter E id' (query_from q) (query_to q))
          (logs_limit (query_limit q)) s)"
  by (simp add: get_logs_def)

lemma post_exercises_found:
  "user_findById db id' s = Inr (Some u) \<Longrightarrow>
   post_exercises db E id' body s =
     exercise_reply_of E u (exercise_save db (exerciseObj E u body) s)"
  by (simp add: post_exercises_def)

lemma logs_limit_number: "logs_limit limit = ONum (to_number limit)"
  by (simp add: logs_limit_def unary_plus_def nullish_or_def)

lemma logs_filter_closed:
  "logs_filter E id' from to =
     \<lparr>filter_userId = id',
      filter_date =
        (if truthy from \<or> truthy to
         then Some \<lparr>gte = (if truthy from then Some (new_Date E from) else None),
                    lte = (if truthy to then Some (new_Date E to) else None)\<rparr>
         else None)\<rparr>"
  by (simp add: logs_filter_def js_or_def)

lemma truthy_iff: "truthy v \<longleftrightarrow> v \<noteq> Undefined \<and> v \<noteq> Str []"
  by (cases v) simp_all

lemma map_log_dated:
  "list_all (\<lambda>i. date i \<noteq> None) xs \<Longrightarrow>
   map_log E xs =
     Inr (map (\<lambda>i. \<lparr>entry_description = description i, entry_duration = duration i,
                     entry_date = toDateString E (the (date i))\<rparr>) xs)"
  by (induction xs) (auto simp: log_item_def)

lemma DateString_Day: "Day t1 = Day t2 \<Longrightarrow> DateString t1 = DateString t2"
  by (simp add: DateString_def YearFromTime_def MonthFromTime_def DateFromTime_def
      WeekDay_def DayWithinYear_def InLeapYear_def)

subsection \<open>The year of a time value\<close>

text \<open>
  \<open>YearFromTime\<close> is the largest year whose first instant is not after \<open>t\<close>, which is how
  the language defines it.
\<close>

lemma div_bounds:
  fixes a b :: int
  assumes "0 < b"
  shows "b * (a div b) \<le> a" and "a < b * (a div b) + b"
proof -
  have "b * (a div b) + a mod b = a" by simp
  moreover have "0 \<le> a mod b" "a mod b < b" using assms by simp_all
  ultimately show "b * (a div b) \<le> a" and "a < b * (a div b) + b" by linarith+
qed

lemma DayFromYear_lower: "3652425 * (y - 1970) - 12650 \<le> 10000 * DayFromYear y"
  unfolding DayFromYear_def
  using div_bounds [of 4 "y - 1969"] div_bounds [of 100 "y - 1901"] div_bounds [of 400 "y - 1601"]
  by simp

lemma DayFromYear_upper: "10000 * DayFromYear y \<le> 3652425 * (y - 1970) + 14725"
  unfolding DayFromYear_def
  using div_bounds [of 4 "y - 1969"] div_bounds [of 100 "y - 1901"] div_bounds [of 400 "y - 1601"]
  by simp

lemma YearFromTime_bounds:
  "DayFromYear (YearFromTime t) \<le> Day t \<and> Day t < DayFromYear (YearFromTime t + 1)"
proof -
  define d where "d = Day t"
  define e where "e = (d * 10000) div 3652425"
  have e1: "3652425 * e \<le> 10000 * d" and e2: "10000 * d < 3652425 * e + 3652425"
    unfolding e_def using div_bounds [of 3652425 "d * 10000"] by linarith+
  have l1: "10000 * DayFromYear (1970 + e - 1) \<le> 3652425 * (e - 1) + 14725"
    using DayFromYear_upper [of "1970 + e - 1"] by simp
  have l2: "3652425 * (e + 2) - 12650 \<le> 10000 * DayFromYear (1970 + e + 1 + 1)"
    using DayFromYear_lower [of "1970 + e + 1 + 1"] by simp
  have "10000 * DayFromYear (1970 + e - 1) \<le> 10000 * d" using l1 e1 by simp
  then have p1: "DayFromYear (1970 + e - 1) \<le> d" by simp
  have "10000 * d < 10000 * DayFromYear (1970 + e + 1 + 1)" using l2 e2 by simp
  then have p2: "d < DayFromYear (1970 + e + 1 + 1)" by simp
  show ?thesis
    using p1 p2 unfolding YearFromTime_def Let_def d_def [symmetric] e_def [symmetric]
    by (auto simp: algebra_simps)
qed

lemma step_div:
  fixes x k :: int
  assumes "0 < k"
  shows "(x + 1) div k = x div k + (if (x + 1) mod k = 0 then 1 else 0)"
proof (cases "x mod k + 1 = k")
  case True
  have e: "k * (x div k) + x mod k = x" by simp
  have "x + 1 = k * (x div k) + k" using True e by linarith
  then have "x + 1 = k * (x div k + 1)" by (simp add: algebra_simps)
  then have "(x + 1) div k = x div k + 1" and "(x + 1) mod k = 0"
    using assms by simp_all
  then show ?thesis by simp
next
  case False
  then have r: "0 \<le> x mod k + 1" "x mod k + 1 < k"
    using assms pos_mod_bound [of k x] pos_mod_sign [of k x] by linarith+
  have "x + 1 = k * (x div k) + (x mod k + 1)" by simp
  then have "(x + 1) div k = x div k" and "(x + 1) mod k = x mod k + 1"
    using r by (metis int_div_pos_eq, metis int_mod_pos_eq)
  moreover have "x mod k + 1 \<noteq> 0" using pos_mod_sign [of k x] assms by linarith
  ultimately show ?thesis by simp
qed

lemma leap4: "(y - 1969 + 1) mod 4 = y mod 4" for y :: int
proof -
  have "y - 1969 + 1 = y + 4 * (- 492)" by simp
  then show ?thesis by (simp only: mod_mult_self2)
qed

lemma leap100: "(y - 1901 + 1) mod 100 = y mod 100" for y :: int
proof -
  have "y - 1901 + 1 = y + 100 * (- 19)" by simp
  then show ?thesis by (simp only: mod_mult_self2)
qed

lemma leap400: "(y - 1601 + 1) mod 400 = y mod 400" for y :: int
proof -
  have "y - 1601 + 1 = y + 400 * (- 4)" by simp
  then show ?thesis by (simp only: mod_mult_self2)
qed

lemma century_leap: "y mod 100 = 0 \<Longrightarrow> y mod 4 = 0" for y :: int
proof -
  assume "y mod 100 = 0"
  moreover have "y mod 100 mod 4 = y mod 4" by (rule mod_mod_cancel) simp
  ultimately show ?thesis by simp
qed

lemma quad_century: "y mod 400 = 0 \<Longrightarrow> y mod 100 = 0" for y :: int
proof -
  assume "y mod 400 = 0"
  moreover have "y mod 400 mod 100 = y mod 100" by (rule mod_mod_cancel) simp
  ultimately show ?thesis by simp
qed

lemma DayFromYear_Suc: "DayFromYear (y + 1) = DayFromYear y + DaysInYear y"
proof -
  have a: "(y + 1 - 1969) div 4 = (y - 1969) div 4 + (if y mod 4 = 0 then 1 else 0)"
    using step_div [of 4 "y - 1969"] leap4 [of y] by (simp add: algebra_simps)
  have b: "(y + 1 - 1901) div 100 = (y - 1901) div 100 + (if y mod 100 = 0 then 1 else 0)"
    using step_div [of 100 "y - 1901"] leap100 [of y] by (simp add: algebra_simps)
  have c: "(y + 1 - 1601) div 400 = (y - 1601) div 400 + (if y mod 400 = 0 then 1 else 0)"
    using step_div [of 400 "y - 1601"] leap400 [of y] by (simp add: algebra_simps)
  show ?thesis
    unfolding DayFromYear_def DaysInYear_def a b c
    using century_leap [of y] quad_century [of y] by auto
qed

lemma DayFromYear_less: "DayFromYear y < DayFromYear (y + 1)"
  by (simp add: DayFromYear_Suc DaysInYear_def)

lemma DayFromYear_mono: "y \<le> z \<Longrightarrow> DayFromYear y \<le> DayFromYear z"
proof (induction "nat (z - y)" arbitrary: z)
  case 0
  then show ?case by simp
next
  case (Suc n)
  then have "n = nat ((z - 1) - y)" and "y \<le> z - 1" by linarith+
  with Suc.hyps(1) have "DayFromYear y \<le> DayFromYear (z - 1)" by blast
  also have "\<dots> \<le> DayFromYear z" using DayFromYear_less [of "z - 1"] by simp
  finally show ?case .
qed

lemma TimeFromYear_le_iff: "TimeFromYear y \<le> t \<longleftrightarrow> DayFromYear y \<le> Day t"
  unfolding TimeFromYear_def Day_def msPerDay_def
  using div_bounds [of 86400000 t] by auto

lemma YearFromTime_largest: "TimeFromYear y \<le> t \<longleftrightarrow> y \<le> YearFromTime t"
proof
  assume "TimeFromYear y \<le> t"
  then have le: "DayFromYear y \<le> Day t" by (simp add: TimeFromYear_le_iff)
  show "y \<le> YearFromTime t"
  proof (rule ccontr)
    assume "\<not> y \<le> YearFromTime t"
    then have "YearFromTime t + 1 \<le> y" by simp
    then have "DayFromYear (YearFromTime t + 1) \<le> DayFromYear y" by (rule DayFromYear_mono)
    with le YearFromTime_bounds [of t] show False by linarith
  qed
next
  assume "y \<le> YearFromTime t"
  then have "DayFromYear y \<le> DayFromYear (YearFromTime t)" by (rule DayFromYear_mono)
  with YearFromTime_bounds [of t] show "TimeFromYear y \<le> t"
    by (simp add: TimeFromYear_le_iff)
qed

lemma DayWithinYear_range:
  "0 \<le> DayWithinYear t \<and> DayWithinYear t < DaysInYear (YearFromTime t)"
  using YearFromTime_bounds [of t] DayFromYear_Suc [of "YearFromTime t"]
  by (simp add: DayWithinYear_def)

text \<open>The indices into the tables of names are in range, and the day of the month is one.\<close>

lemma WeekDay_range: "0 \<le> WeekDay t \<and> WeekDay t < 7"
  by (simp add: WeekDay_def)

lemma MonthFromTime_range: "0 \<le> MonthFromTime t \<and> MonthFromTime t < 12"
  by (simp add: MonthFromTime_def Let_def)

lemma DateFromTime_range: "1 \<le> DateFromTime t \<and> DateFromTime t \<le> 31"
proof -
  define d where "d = DayWithinYear t"
  define l where "l = InLeapYear t"
  have d: "0 \<le> d" "d < 365 + l"
    using DayWithinYear_range [of t]
    by (auto simp: d_def l_def InLeapYear_def DaysInYear_def split: if_splits)
  have l: "0 \<le> l" "l \<le> 1"
    by (simp_all add: l_def InLeapYear_def)
  consider "d < 31" | "31 \<le> d" "d < 59 + l" | "59 + l \<le> d" "d < 90 + l"
    | "90 + l \<le> d" "d < 120 + l" | "120 + l \<le> d" "d < 151 + l"
    | "151 + l \<le> d" "d < 181 + l" | "181 + l \<le> d" "d < 212 + l"
    | "212 + l \<le> d" "d < 243 + l" | "243 + l \<le> d" "d < 273 + l"
    | "273 + l \<le> d" "d < 304 + l" | "304 + l \<le> d" "d < 334 + l" | "334 + l \<le> d"
    by linarith
  then show ?thesis
    using d l
    by cases
      (simp_all add: DateFromTime_def MonthFromTime_def Let_def d_def [symmetric] l_def [symmetric])
qed

subsection \<open>The claims\<close>

text \<open>
  An absent \<^verbatim>\<open>limit\<close> does not reach the default: unary plus turns \<^verbatim>\<open>undefined\<close> into NaN,
  which is not nullish, so NaN is the cap handed to the store.
\<close>

lemma logs_limit_absent: "logs_limit Undefined = ONum NaN"
  by (simp add: logs_limit_number)

text \<open>
  C1, as the code has it. For every logs query on an existing user that supplies a
  \<^verbatim>\<open>limit\<close>, the cap handed to the store is that value coerced to a number, whatever the
  coercion gives: zero and NaN are passed on, and 500 is not put in their place.
\<close>

theorem logs_cap_supplied:
  assumes "user_findById db id' s = Inr (Some u)"
    and "query_limit q \<noteq> Undefined"
  shows "get_logs db E id' q s =
     logs_reply_of E u
       (exercise_find db (logs_filter E id' (query_from q) (query_to q))
          (ONum (string_to_number (to_string (query_limit q)))) s)"
proof -
  from assms(2) have "to_number (query_limit q) = string_to_number (to_string (query_limit q))"
    by (cases "query_limit q") simp_all
  with assms(1) show ?thesis
    by (simp add: get_logs_found logs_limit_number)
qed

theorem logs_cap_supplied_witness:
  "user_findById memory_store ''u1'' ([alice], [run]) = Inr (Some alice) \<and>
   query_limit \<lparr>query_from = Undefined, query_to = Undefined, query_limit = Str ''1''\<rparr> \<noteq> Undefined \<and>
   get_logs memory_store host ''u1''
       \<lparr>query_from = Undefined, query_to = Undefined, query_limit = Str ''1''\<rparr> ([alice], [run]) =
     logs_reply_of host alice
       (exercise_find memory_store
          (logs_filter host ''u1'' Undefined Undefined)
          (ONum (string_to_number ''1'')) ([alice], [run]))"
proof -
  have found: "user_findById memory_store ''u1'' ([alice], [run]) = Inr (Some alice)"
    by (simp add: memory_store_def alice_def)
  have given: "query_limit \<lparr>query_from = Undefined, query_to = Undefined, query_limit = Str ''1''\<rparr> \<noteq> Undefined"
    by simp
  show ?thesis
    using found given logs_cap_supplied [OF found given, of host] by simp
qed

text \<open>
  C1 as stated fails: a \<^verbatim>\<open>limit\<close> of \<^verbatim>\<open>0\<close> reaches the store as 0 and a non-numeric one as
  NaN, neither as 500.
\<close>

theorem logs_cap_default_counterexample:
  "logs_limit (Str ''0'') = ONum (Fin 0) \<and> logs_limit (Str ''0'') \<noteq> ONum (Fin 500) \<and>
   logs_limit (Str ''abc'') = ONum NaN \<and> logs_limit (Str ''abc'') \<noteq> ONum (Fin 500)"
proof -
  have zero: "string_to_number ''0'' = Fin 0"
    by code_simp
  have abc: "string_to_number ''abc'' = NaN"
    by code_simp
  show ?thesis
    by (simp add: logs_limit_number zero abc)
qed

text \<open>
  C2, as the code has it. For every logs query on an existing user the filter handed to the
  store constrains \<open>userId\<close> to the given id; a \<^verbatim>\<open>from\<close> that is present and not the empty
  string adds the inclusive lower bound \<^verbatim>\<open>$gte\<close> on \<open>date\<close>, a \<^verbatim>\<open>to\<close> that is present and
  not the empty string adds the inclusive upper bound \<^verbatim>\<open>$lte\<close>, and when neither is so the
  filter has no date constraint.
\<close>

theorem logs_filter_built:
  assumes "user_findById db id' s = Inr (Some u)"
  shows "get_logs db E id' q s =
     logs_reply_of E u
       (exercise_find db
          \<lparr>filter_userId = id',
           filter_date =
             (if query_from q \<notin> {Undefined, Str []} \<or> query_to q \<notin> {Undefined, Str []}
              then Some
                \<lparr>gte = (if query_from q \<notin> {Undefined, Str []}
                        then Some (new_Date E (query_from q)) else None),
                 lte = (if query_to q \<notin> {Undefined, Str []}
                        then Some (new_Date E (query_to q)) else None)\<rparr>
              else None)\<rparr>
          (logs_limit (query_limit q)) s)"
  using assms by (simp add: get_logs_found logs_filter_closed truthy_iff)

theorem logs_filter_built_witness:
  "user_findById memory_store ''u1'' ([alice], [run]) = Inr (Some alice) \<and>
   get_logs memory_store host ''u1''
       \<lparr>query_from = Str ''2020-01-01'', query_to = Undefined, query_limit = Str ''1''\<rparr>
       ([alice], [run]) =
     logs_reply_of host alice
       (exercise_find memory_store
          \<lparr>filter_userId = ''u1'',
           filter_date = Some \<lparr>gte = Some (Time 1577836800000), lte = None\<rparr>\<rparr>
          (logs_limit (Str ''1'')) ([alice], [run]))"
proof -
  have found: "user_findById memory_store ''u1'' ([alice], [run]) = Inr (Some alice)"
    by (simp add: memory_store_def alice_def)
  show ?thesis
    using found
      logs_filter_built [OF found, of host
        "\<lparr>query_from = Str ''2020-01-01'', query_to = Undefined, query_limit = Str ''1''\<rparr>"]
    by (simp add: host_def)
qed

text \<open>
  C2 as stated fails: a \<^verbatim>\<open>from\<close> that is present as the empty string adds no lower bound.
\<close>

theorem logs_filter_present_counterexample:
  "Str [] \<noteq> Undefined \<and>
   logs_filter host ''u1'' (Str []) Undefined = \<lparr>filter_userId = ''u1'', filter_date = None\<rparr>"
  by (simp add: logs_filter_closed)

text \<open>
  C3 fails on the code. When the store rejects, the logs handler and the list handler let the
  exception leave the handler, and the create-user handler catches it but sends nothing;
  only the append-exercise handler answers.
\<close>

theorem store_rejection_outcomes:
  "get_logs rejecting_store host ''u1''
       \<lparr>query_from = Undefined, query_to = Undefined, query_limit = Undefined\<rparr> () =
     Unhandled StoreError \<and>
   get_users rejecting_store () = Unhandled StoreError \<and>
   post_users rejecting_store (Str ''alice'') () = (NoResponse, ()) \<and>
   post_exercises rejecting_store host ''u1''
       \<lparr>body_description = Str ''run'', body_duration = Str ''30'', body_date = Undefined\<rparr> () =
     (Responded (Send ''there was an error''), ())"
  by (simp add: get_logs_def get_users_def post_users_def post_exercises_def rejecting_store_def)

text \<open>
  C4. An append-exercise request whose id resolves to no user is answered with the text
  \<^verbatim>\<open>could not find user\<close> and leaves the store as it was: the save is not reached.
\<close>

theorem append_unknown_user:
  assumes "user_findById db id' s = Inr None"
  shows "post_exercises db E id' body s = (Responded (Send ''could not find user''), s)"
  using assms by (simp add: post_exercises_def)

theorem append_unknown_user_witness:
  "user_findById memory_store ''u2'' ([alice], [run]) = Inr None \<and>
   post_exercises memory_store host ''u2''
       \<lparr>body_description = Str ''swim'', body_duration = Str ''20'', body_date = Undefined\<rparr>
       ([alice], [run]) =
     (Responded (Send ''could not find user''), ([alice], [run]))"
proof -
  have absent: "user_findById memory_store ''u2'' ([alice], [run]) = Inr None"
    by (simp add: memory_store_def alice_def)
  show ?thesis
    using absent append_unknown_user [OF absent] by simp
qed

text \<open>
  C5, as the code has it. For every append-exercise request on an existing user, the
  Exercise handed to the store has as its date the moment of handling when the request has no
  date or has the empty string as date, and otherwise the date that the date constructor
  makes of the supplied value.
\<close>

theorem exercise_date_chosen:
  assumes "user_findById db id' s = Inr (Some u)"
  shows "post_exercises db E id' body s =
     exercise_reply_of E u (exercise_save db (exerciseObj E u body) s) \<and>
   new_date (exerciseObj E u body) =
     (if body_date body \<in> {Undefined, Str []} then Time (now E)
      else Date_parse E (to_string (body_date body)))"
proof -
  have "new_Date E v = Date_parse E (to_string v)" if "v \<noteq> Undefined" for v
    using that by (cases v) simp_all
  then have "new_date (exerciseObj E u body) =
     (if body_date body \<in> {Undefined, Str []} then Time (now E)
      else Date_parse E (to_string (body_date body)))"
    by (simp add: exerciseObj_def truthy_iff new_Date_now_def)
  with assms show ?thesis
    by (simp add: post_exercises_found)
qed

theorem exercise_date_chosen_witness:
  "user_findById memory_store ''u1'' ([alice], []) = Inr (Some alice) \<and>
   post_exercises memory_store host ''u1''
       \<lparr>body_description = Str ''run'', body_duration = Str ''30'', body_date = Str ''2020-01-01''\<rparr>
       ([alice], []) =
     exercise_reply_of host alice
       (exercise_save memory_store
          (exerciseObj host alice
             \<lparr>body_description = Str ''run'', body_duration = Str ''30'',
              body_date = Str ''2020-01-01''\<rparr>) ([alice], [])) \<and>
   new_date (exerciseObj host alice
       \<lparr>body_description = Str ''run'', body_duration = Str ''30'',
        body_date = Str ''2020-01-01''\<rparr>) = Time 1577836800000"
proof -
  have found: "user_findById memory_store ''u1'' ([alice], []) = Inr (Some alice)"
    by (simp add: memory_store_def alice_def)
  show ?thesis
    using found
      exercise_date_chosen [OF found, of host
        "\<lparr>body_description = Str ''run'', body_duration = Str ''30'',
          body_date = Str ''2020-01-01''\<rparr>"]
    by (simp add: host_def)
qed

text \<open>
  C5 as stated fails: a date supplied as the empty string is not parsed; the Exercise gets
  the moment of handling, while the date constructor makes an invalid date of that text.
\<close>

theorem exercise_date_parsed_counterexample:
  "Str [] \<noteq> Undefined \<and>
   new_date (exerciseObj host alice
       \<lparr>body_description = Str ''run'', body_duration = Str ''30'', body_date = Str []\<rparr>) =
     Time 1762128000000 \<and>
   new_Date host (Str []) = Invalid"
  by (simp add: exerciseObj_def new_Date_now_def host_def)

text \<open>
  C6. For an existing user, when the store query resolves and every document it returns has a
  date, the response carries the user's name and id, one log entry for each document, in
  order, and a \<open>count\<close> equal to the length of that log. With no documents the count is 0 and
  the log is empty; the response is never the text \<^verbatim>\<open>could not find user\<close>.
\<close>

theorem logs_summary_count:
  assumes "user_findById db id' s = Inr (Some u)"
    and "exercise_find db (logs_filter E id' (query_from q) (query_to q))
           (logs_limit (query_limit q)) s = Inr exercises"
    and "list_all (\<lambda>i. date i \<noteq> None) exercises"
  shows "\<exists>r. get_logs db E id' q s = Responded (Json_logs r) \<and>
     logs_username r = username u \<and> logs_id r = uid u \<and>
     logs_log r =
       map (\<lambda>i. \<lparr>entry_description = description i, entry_duration = duration i,
                  entry_date = toDateString E (the (date i))\<rparr>) exercises \<and>
     logs_count r = length (logs_log r) \<and>
     (if exercises = [] then logs_count r = 0 \<and> logs_log r = [] else 0 < logs_count r) \<and>
     get_logs db E id' q s \<noteq> Responded (Send ''could not find user'')"
  using assms by (simp add: get_logs_found logs_reply_of_def map_log_dated)

theorem logs_summary_count_witness:
  "user_findById memory_store ''u1'' ([alice], []) = Inr (Some alice) \<and>
   exercise_find memory_store (logs_filter host ''u1'' Undefined Undefined)
       (logs_limit Undefined) ([alice], []) = Inr [] \<and>
   list_all (\<lambda>i. date i \<noteq> None) [] \<and>
   get_logs memory_store host ''u1''
       \<lparr>query_from = Undefined, query_to = Undefined, query_limit = Undefined\<rparr> ([alice], []) =
     Responded (Json_logs
       \<lparr>logs_username = Some ''alice'', logs_count = 0, logs_id = ''u1'', logs_log = []\<rparr>)"
proof -
  have found: "user_findById memory_store ''u1'' ([alice], []) = Inr (Some alice)"
    by (simp add: memory_store_def alice_def)
  have none: "exercise_find memory_store
       (logs_filter host ''u1''
          (query_from \<lparr>query_from = Undefined, query_to = Undefined, query_limit = Undefined\<rparr>)
          (query_to \<lparr>query_from = Undefined, query_to = Undefined, query_limit = Undefined\<rparr>))
       (logs_limit
          (query_limit \<lparr>query_from = Undefined, query_to = Undefined, query_limit = Undefined\<rparr>))
       ([alice], []) = Inr []"
    by (simp add: memory_store_def)
  have dated: "list_all (\<lambda>i. date i \<noteq> None) []"
    by simp
  from logs_summary_count [OF found none dated]
  obtain r where "get_logs memory_store host ''u1''
       \<lparr>query_from = Undefined, query_to = Undefined, query_limit = Undefined\<rparr> ([alice], []) =
       Responded (Json_logs r)"
    and "logs_username r = username alice" and "logs_id r = uid alice"
    and "logs_log r = []" and "logs_count r = 0"
    by auto
  then have "get_logs memory_store host ''u1''
       \<lparr>query_from = Undefined, query_to = Undefined, query_limit = Undefined\<rparr> ([alice], []) =
     Responded (Json_logs
       \<lparr>logs_username = Some ''alice'', logs_count = 0, logs_id = ''u1'', logs_log = []\<rparr>)"
    by (cases r) (simp add: alice_def)
  with found dated show ?thesis
    by (simp add: memory_store_def)
qed

text \<open>
  C7. When the store holds no users the list handler answers with the empty JSON array: an
  empty array is truthy, so the branch that sends \<^verbatim>\<open>no users\<close> is never taken.
\<close>

theorem list_users_empty:
  assumes "user_find db s = Inr []"
  shows "get_users db s = Responded (Json_users [])"
  using assms by (simp add: get_users_def array_truthy_def)

theorem list_users_empty_witness:
  "user_find memory_store ([], []) = Inr [] \<and>
   get_users memory_store ([], []) = Responded (Json_users [])"
proof -
  have empty: "user_find memory_store ([], []) = Inr []"
    by (simp add: memory_store_def)
  show ?thesis
    using empty list_users_empty [OF empty] by simp
qed

text \<open>
  C8. The \<open>date\<close> of a log entry is the calendar string of the stored date in the server's
  local time, and it depends only on the local calendar day: two stored dates that fall on
  the same local day, whatever their times of day, give the same string.
\<close>

theorem log_date_same_day:
  assumes "date i = Some (Time t1)" and "date j = Some (Time t2)"
    and "Day (LocalTime E t1) = Day (LocalTime E t2)"
  shows "\<exists>a b. log_item E i = Inr a \<and> log_item E j = Inr b \<and>
     entry_date a = DateString (LocalTime E t1) \<and> entry_date a = entry_date b"
  using assms DateString_Day [of "LocalTime E t1" "LocalTime E t2"]
  by (simp add: log_item_def toDateString_def)

theorem log_date_same_day_witness:
  "date run = Some (Time 1577836800000) \<and>
   date (run\<lparr>date := Some (Time 1577854800123)\<rparr>) = Some (Time 1577854800123) \<and>
   Day (LocalTime host 1577836800000) = Day (LocalTime host 1577854800123) \<and>
   (\<exists>a b. log_item host run = Inr a \<and>
      log_item host (run\<lparr>date := Some (Time 1577854800123)\<rparr>) = Inr b \<and>
      entry_date a = ''Wed Jan 01 2020'' \<and> entry_date b = ''Wed Jan 01 2020'')"
proof -
  have d1: "date run = Some (Time 1577836800000)"
    by (simp add: run_def)
  have d2: "date (run\<lparr>date := Some (Time 1577854800123)\<rparr>) = Some (Time 1577854800123)"
    by simp
  have same: "Day (LocalTime host 1577836800000) = Day (LocalTime host 1577854800123)"
    by (simp add: Day_def LocalTime_def host_def msPerDay_def)
  have printed: "DateString (LocalTime host 1577836800000) = ''Wed Jan 01 2020''"
    by code_simp
  from log_date_same_day [OF d1 d2 same] printed d1 d2 same show ?thesis
    by auto
qed

text \<open>
  C9. In append-exercise a \<open>date\<close> field that is the empty string is handled exactly as an
  absent one: the request has the same outcome, and the Exercise gets the moment of handling.
\<close>

theorem empty_date_as_absent:
  "post_exercises db E id' (body\<lparr>body_date := Str []\<rparr>) s =
     post_exercises db E id' (body\<lparr>body_date := Undefined\<rparr>) s \<and>
   exerciseObj E u (body\<lparr>body_date := Str []\<rparr>) = exerciseObj E u (body\<lparr>body_date := Undefined\<rparr>) \<and>
   new_date (exerciseObj E u (body\<lparr>body_date := Str []\<rparr>)) = new_Date_now E"
proof -
  have same: "exerciseObj E v (body\<lparr>body_date := Str []\<rparr>) =
      exerciseObj E v (body\<lparr>body_date := Undefined\<rparr>)" for v
    by (simp add: exerciseObj_def)
  have "post_exercises db E id' (body\<lparr>body_date := Str []\<rparr>) s =
      post_exercises db E id' (body\<lparr>body_date := Undefined\<rparr>) s"
    by (simp add: post_exercises_def same split: sum.splits option.splits)
  moreover have "new_date (exerciseObj E u (body\<lparr>body_date := Str []\<rparr>)) = new_Date_now E"
    by (simp add: exerciseObj_def)
  ultimately show ?thesis
    using same by simp
qed

text \<open>
  C10. In the logs query a \<open>from\<close> or \<open>to\<close> that is the empty string is handled exactly as an
  absent one: the filter and the outcome of the request are the same, and when both are empty
  the filter has no date constraint.
\<close>

theorem empty_bounds_as_absent:
  "logs_filter E id' (Str []) to = logs_filter E id' Undefined to \<and>
   logs_filter E id' from (Str []) = logs_filter E id' from Undefined \<and>
   logs_filter E id' (Str []) (Str []) = \<lparr>filter_userId = id', filter_date = None\<rparr> \<and>
   get_logs db E id' (q\<lparr>query_from := Str []\<rparr>) s =
     get_logs db E id' (q\<lparr>query_from := Undefined\<rparr>) s \<and>
   get_logs db E id' (q\<lparr>query_to := Str []\<rparr>) s =
     get_logs db E id' (q\<lparr>query_to := Undefined\<rparr>) s"
proof -
  have from_empty: "logs_filter E id' (Str []) x = logs_filter E id' Undefined x" for x
    by (simp add: logs_filter_closed)
  have to_empty: "logs_filter E id' x (Str []) = logs_filter E id' x Undefined" for x
    by (simp add: logs_filter_closed)
  have both: "logs_filter E id' (Str []) (Str []) = \<lparr>filter_userId = id', filter_date = None\<rparr>"
    by (simp add: logs_filter_closed)
  have "get_logs db E id' (q\<lparr>query_from := Str []\<rparr>) s =
      get_logs db E id' (q\<lparr>query_from := Undefined\<rparr>) s"
    by (simp add: get_logs_def from_empty split: sum.splits option.splits)
  moreover have "get_logs db E id' (q\<lparr>query_to := Str []\<rparr>) s =
      get_logs db E id' (q\<lparr>query_to := Undefined\<rparr>) s"
    by (simp add: get_logs_def to_empty split: sum.splits option.splits)
  ultimately show ?thesis
    using from_empty to_empty both by simp
qed

end
